theory Spec2Isabelle
  imports Complex_Main "HOL-Library.AList"
begin

section \<open>The ANN index controller of \<open>ml/src/inference/ann_index.py\<close>\<close>

text \<open>
  The controller class \<open>ANNIndex\<close> wraps a proximity graph of the library \<open>hnswlib\<close>.
  The library is not part of the repository. Its objects are modelled by the state the
  controller can observe (space, dimension, capacity, stored vectors, search breadth), its
  constructor and insertion by their documented failures, and its search \<open>knn_query\<close> is
  a parameter \<open>knn\<close> of every operation that searches: nothing is assumed about which
  candidates an approximate search returns unless a theorem says so in a hypothesis.
  The argument checks of the library's Python binding are not modelled: it also raises on
  an empty matrix and on a capacity, \<open>M\<close> or \<open>ef\<close> that is negative or too large for
  the machine word. A statement below that \<open>build\<close> succeeds is about a matrix of at
  least one row and parameters in that range.

  Distances and scores are \<open>float\<close>s in the source; they are modelled as \<open>real\<close>, so
  rounding and NaN are outside the model. Python \<open>int\<close>s are \<open>int\<close>.
\<close>

subsection \<open>Errors\<close>

datatype lib_failure =
    BadSpaceName          \<comment> \<open>"Space name must be one of l2, ip, or cosine."\<close>
  | WrongDimensionality   \<comment> \<open>"Wrong dimensionality of the vectors"\<close>
  | ExceedsLimit          \<comment> \<open>"The number of elements exceeds the specified limit"\<close>
  | CannotReturnResults   \<comment> \<open>"Cannot return the results in a contiguous 2D array"\<close>
  | CannotOpenFile        \<comment> \<open>"Cannot open file"\<close>

datatype error =
    ValueError            \<comment> \<open>raised by the controller itself, and by \<open>int(k)\<close>\<close>
  | RuntimeError lib_failure
  | IndexError
  | KeyError
  | FileNotFoundError
  | JSONDecodeError

subsection \<open>Configuration\<close>

record ANNIndexConfig =
  space :: string
  ef_construction :: int
  M :: int
  ef_search :: int
  max_elements :: int

definition ANNIndexConfig_default :: ANNIndexConfig where
  "ANNIndexConfig_default =
     \<lparr>space = ''cosine'', ef_construction = 200, M = 16, ef_search = 100,
      max_elements = 1000000\<rparr>"

subsection \<open>The graph library, as far as the controller observes it\<close>

type_synonym vector = "real list"
type_synonym matrix = "vector list"

record hnsw_index =
  g_space :: string
  g_dim :: int
  g_max_elements :: int
  g_ef_construction :: int
  g_M :: int
  g_ef :: int
  g_items :: "(nat \<times> vector) list"   \<comment> \<open>(label, vector), in insertion order\<close>

text \<open>\<open>hnswlib.Index(space=..., dim=...)\<close>: an empty graph; an unknown space name raises.\<close>

definition hnswlib_Index :: "string \<Rightarrow> int \<Rightarrow> error + hnsw_index" where
  "hnswlib_Index sp d =
     (if sp = ''l2'' \<or> sp = ''ip'' \<or> sp = ''cosine''
      then Inr \<lparr>g_space = sp, g_dim = d, g_max_elements = 0, g_ef_construction = 200,
                g_M = 16, g_ef = 10, g_items = []\<rparr>
      else Inl (RuntimeError BadSpaceName))"

definition init_index :: "hnsw_index \<Rightarrow> int \<Rightarrow> int \<Rightarrow> int \<Rightarrow> hnsw_index" where
  "init_index g cap efc m =
     g\<lparr>g_max_elements := cap, g_ef_construction := efc, g_M := m, g_items := []\<rparr>"

text \<open>
  \<open>add_items(data, ids)\<close>: every row must have the graph's dimension, and the graph
  must have room for all rows.
\<close>

definition add_items :: "hnsw_index \<Rightarrow> matrix \<Rightarrow> nat list \<Rightarrow> error + hnsw_index" where
  "add_items g data ids =
     (if \<exists>row \<in> set data. int (length row) \<noteq> g_dim g
      then Inl (RuntimeError WrongDimensionality)
      else if g_max_elements g < int (length (g_items g) + length data)
      then Inl (RuntimeError ExceedsLimit)
      else Inr (g\<lparr>g_items := g_items g @ zip ids data\<rparr>))"

definition set_ef :: "hnsw_index \<Rightarrow> int \<Rightarrow> hnsw_index" where
  "set_ef g e = g\<lparr>g_ef := e\<rparr>"

definition get_current_count :: "hnsw_index \<Rightarrow> nat" where
  "get_current_count g = length (g_items g)"

text \<open>
  \<open>knn_query(data, k)\<close> answers one row of (label, distance) pairs per query row, or
  raises. It is the parameter of the search operations below.
\<close>

type_synonym candidate = "nat \<times> real"
type_synonym knn_query = "hnsw_index \<Rightarrow> matrix \<Rightarrow> int \<Rightarrow> error + candidate list list"

text \<open>
  The binary written by \<open>save_index\<close> holds the graph, not the space name and not the
  query-time \<open>ef\<close>: \<open>load_index\<close> reads it into an \<open>Index\<close> object that already has
  a space and a dimension, and does not compare the dimension the binary was written
  with. A missing file is the only failure of \<open>load_index\<close> that is modelled; it is
  raised where \<open>load\<close> opens the file.
\<close>

record index_blob =
  b_dim :: int
  b_max_elements :: int
  b_ef_construction :: int
  b_M :: int
  b_items :: "(nat \<times> vector) list"

definition save_index :: "hnsw_index \<Rightarrow> index_blob" where
  "save_index g =
     \<lparr>b_dim = g_dim g, b_max_elements = g_max_elements g,
      b_ef_construction = g_ef_construction g, b_M = g_M g, b_items = g_items g\<rparr>"

definition load_index :: "hnsw_index \<Rightarrow> index_blob \<Rightarrow> error + hnsw_index" where
  "load_index g b =
     Inr (g\<lparr>g_max_elements := b_max_elements b,
            g_ef_construction := b_ef_construction b, g_M := b_M b,
            g_items := b_items b\<rparr>)"

subsection \<open>Python dictionaries and integer rendering\<close>

text \<open>
  A \<open>dict\<close> is an association list in insertion order. A dict comprehension stores its
  pairs one by one: a key seen again keeps its place and takes the new value.
\<close>

definition dict_of_pairs :: "('k \<times> 'v) list \<Rightarrow> ('k \<times> 'v) list" where
  "dict_of_pairs ps = foldl (\<lambda>d (k, v). AList.update k v d) [] ps"

definition dict_get :: "('k \<times> 'v) list \<Rightarrow> 'k \<Rightarrow> 'v option" where
  "dict_get d k = map_of d k"

text \<open>\<open>enumerate(xs)\<close>, with Python \<open>int\<close> positions.\<close>

fun enumerate_from :: "int \<Rightarrow> 'a list \<Rightarrow> (int \<times> 'a) list" where
  "enumerate_from i [] = []"
| "enumerate_from i (x # xs) = (i, x) # enumerate_from (i + 1) xs"

definition py_enumerate :: "'a list \<Rightarrow> (int \<times> 'a) list" where
  "py_enumerate xs = enumerate_from 0 xs"

text \<open>\<open>str(k)\<close> of an \<open>int\<close>, and \<open>int(s)\<close> on the strings \<open>str\<close> produces.\<close>

definition digit_chars :: "char list" where
  "digit_chars = ''0123456789''"

fun digits :: "nat \<Rightarrow> string" where
  "digits n = (if n < 10 then [digit_chars ! n] else digits (n div 10) @ [digit_chars ! (n mod 10)])"

declare digits.simps [simp del]

definition py_str :: "int \<Rightarrow> string" where
  "py_str i = (if i < 0 then CHR ''-'' # digits (nat (- i)) else digits (nat i))"

definition digit_val :: "char \<Rightarrow> nat option" where
  "digit_val c = map_of (zip digit_chars [0, 1, 2, 3, 4, 5, 6, 7, 8, 9]) c"

fun parse_digits :: "nat \<Rightarrow> string \<Rightarrow> nat option" where
  "parse_digits acc [] = Some acc"
| "parse_digits acc (c # cs) =
     (case digit_val c of None \<Rightarrow> None | Some d \<Rightarrow> parse_digits (10 * acc + d) cs)"

text \<open>
  \<open>int(s)\<close> raises \<open>ValueError\<close> on a string that is not a number. Only the plain
  decimal forms are modelled (an optional sign and digits), which are the ones \<open>save\<close>
  writes; Python also accepts surrounding blanks and underscores between digits.
\<close>

definition py_int :: "string \<Rightarrow> error + int" where
  "py_int s =
     (case s of
        [] \<Rightarrow> Inl ValueError
      | c # cs \<Rightarrow>
          if c = CHR ''-'' \<or> c = CHR ''+'' then
            (if cs = [] then Inl ValueError
             else case parse_digits 0 cs of
                    None \<Rightarrow> Inl ValueError
                  | Some n \<Rightarrow> Inr (if c = CHR ''-'' then - int n else int n))
          else (case parse_digits 0 s of None \<Rightarrow> Inl ValueError | Some n \<Rightarrow> Inr (int n)))"

subsection \<open>The controller\<close>

text \<open>
  The metadata dictionary, with the keys \<open>build\<close> writes; a key may be absent (the
  dictionary starts empty, and \<open>load\<close> takes whatever the sidecar holds).
\<close>

record metadata_dict =
  md_n_elements :: "int option"
  md_dim :: "int option"
  md_space :: "string option"
  md_built_at :: "string option"
  md_ef_construction :: "int option"
  md_M :: "int option"

definition empty_metadata :: metadata_dict where
  "empty_metadata =
     \<lparr>md_n_elements = None, md_dim = None, md_space = None, md_built_at = None,
      md_ef_construction = None, md_M = None\<rparr>"

record ANNIndex =
  config :: ANNIndexConfig
  dim :: int
  index :: "hnsw_index option"
  id_to_user :: "(int \<times> string) list"
  user_to_id :: "(string \<times> int) list"
  metadata :: metadata_dict

text \<open>\<open>__init__(config=None, dim=384)\<close>\<close>

definition ANNIndex_init :: "ANNIndexConfig option \<Rightarrow> int \<Rightarrow> ANNIndex" where
  "ANNIndex_init cfg d =
     \<lparr>config = (case cfg of None \<Rightarrow> ANNIndexConfig_default | Some c \<Rightarrow> c),
      dim = d, index = None, id_to_user = [], user_to_id = [],
      metadata = empty_metadata\<rparr>"

text \<open>
  \<open>build\<close> mutates the controller field by field, so an exception of the library leaves
  the fields assigned so far. The result is the exception, if any, and the controller as
  the call leaves it. \<open>now\<close> is the timestamp \<open>datetime.utcnow().isoformat()\<close>.
\<close>

definition build :: "string \<Rightarrow> ANNIndex \<Rightarrow> matrix \<Rightarrow> string list \<Rightarrow> error option \<times> ANNIndex" where
  "build now self embeddings user_ids =
     (let n_elements = length embeddings in
      case hnswlib_Index (space (config self)) (dim self) of
        Inl e \<Rightarrow> (Some e, self)
      | Inr g0 \<Rightarrow>
          let g1 = init_index g0 (max (int n_elements) (max_elements (config self)))
                     (ef_construction (config self)) (M (config self));
              self1 = self\<lparr>index := Some g1\<rparr>;
              self2 = self1\<lparr>id_to_user := dict_of_pairs (py_enumerate user_ids),
                            user_to_id := dict_of_pairs (map (\<lambda>(i, uid). (uid, i)) (py_enumerate user_ids))\<rparr>;
              internal_ids = [0..<n_elements]
          in (case add_items g1 embeddings internal_ids of
                Inl e \<Rightarrow> (Some e, self2)
              | Inr g2 \<Rightarrow>
                  let self3 = self2\<lparr>index := Some (set_ef g2 (ef_search (config self)))\<rparr>
                  in (None,
                      self3\<lparr>metadata :=
                        \<lparr>md_n_elements = Some (int n_elements),
                         md_dim = Some (dim self),
                         md_space = Some (space (config self)),
                         md_built_at = Some now,
                         md_ef_construction = Some (ef_construction (config self)),
                         md_M = Some (M (config self))\<rparr>\<rparr>)))"

text \<open>The score conversion of lines 123-126 and 161-164.\<close>

definition similarity :: "string \<Rightarrow> real \<Rightarrow> real" where
  "similarity sp distance = (if sp = ''cosine'' then 1 - distance else - distance)"

text \<open>
  Lines 106-107. \<open>len(exclude_ids) if exclude_ids else 0\<close>: \<open>None\<close> and the empty list
  are both falsy.
\<close>

definition truthy_list :: "'a list option \<Rightarrow> bool" where
  "truthy_list xs = (case xs of None \<Rightarrow> False | Some l \<Rightarrow> l \<noteq> [])"

definition query_k :: "hnsw_index \<Rightarrow> int \<Rightarrow> string list option \<Rightarrow> int" where
  "query_k g k exclude_ids =
     (let qk = k + (if truthy_list exclude_ids then int (length (the exclude_ids)) else 0) + 10
      in min qk (int (get_current_count g)))"

definition exclude_set :: "string list option \<Rightarrow> string set" where
  "exclude_set exclude_ids = (if truthy_list exclude_ids then set (the exclude_ids) else {})"

text \<open>
  The loop of lines 119-131, on the zipped candidates: \<open>results\<close> is the list built so
  far. \<open>if user_id and ...\<close> holds for an ID that is in the map and is not the empty
  string. The \<open>break\<close> is tested after an append only.
\<close>

fun query_loop :: "ANNIndex \<Rightarrow> int \<Rightarrow> string set \<Rightarrow> candidate list \<Rightarrow> (string \<times> real) list
                   \<Rightarrow> (string \<times> real) list" where
  "query_loop self k excl [] results = results"
| "query_loop self k excl ((internal_id, distance) # rest) results =
     (case dict_get (id_to_user self) (int internal_id) of
        None \<Rightarrow> query_loop self k excl rest results
      | Some user_id \<Rightarrow>
          if user_id \<noteq> [] \<and> user_id \<notin> excl then
            (let results' = results @ [(user_id, similarity (space (config self)) distance)]
             in if int (length results') \<ge> k then results'
                else query_loop self k excl rest results')
          else query_loop self k excl rest results)"

definition query :: "knn_query \<Rightarrow> ANNIndex \<Rightarrow> vector \<Rightarrow> int \<Rightarrow> string list option
                     \<Rightarrow> error + (string \<times> real) list" where
  "query knn self embedding k exclude_ids =
     (case index self of
        None \<Rightarrow> Inl ValueError
      | Some g \<Rightarrow>
          (case knn g [embedding] (query_k g k exclude_ids) of
             Inl e \<Rightarrow> Inl e
           | Inr rows \<Rightarrow>
               (case rows of
                  [] \<Rightarrow> Inl IndexError
                | row # _ \<Rightarrow> Inr (query_loop self k (exclude_set exclude_ids) row []))))"

text \<open>The inner loop of \<open>query_batch\<close>, lines 158-165, and the outer loop around it.\<close>

fun batch_loop :: "ANNIndex \<Rightarrow> candidate list \<Rightarrow> (string \<times> real) list \<Rightarrow> (string \<times> real) list" where
  "batch_loop self [] results = results"
| "batch_loop self ((internal_id, distance) # rest) results =
     (case dict_get (id_to_user self) (int internal_id) of
        None \<Rightarrow> batch_loop self rest results
      | Some user_id \<Rightarrow>
          if user_id \<noteq> [] then
            batch_loop self rest (results @ [(user_id, similarity (space (config self)) distance)])
          else batch_loop self rest results)"

fun batch_rows :: "ANNIndex \<Rightarrow> candidate list list \<Rightarrow> (string \<times> real) list list
                   \<Rightarrow> (string \<times> real) list list" where
  "batch_rows self [] all_results = all_results"
| "batch_rows self (row # rows) all_results =
     batch_rows self rows (all_results @ [batch_loop self row []])"

definition query_batch :: "knn_query \<Rightarrow> ANNIndex \<Rightarrow> matrix \<Rightarrow> int
                           \<Rightarrow> error + (string \<times> real) list list" where
  "query_batch knn self embeddings k =
     (case index self of
        None \<Rightarrow> Inl ValueError
      | Some g \<Rightarrow>
          (case knn g embeddings k of
             Inl e \<Rightarrow> Inl e
           | Inr rows \<Rightarrow> Inr (batch_rows self rows [])))"

subsection \<open>Persistence\<close>

text \<open>
  A saved directory holds \<open>index.bin\<close> and \<open>mappings.json\<close>. The sidecar, once read by
  \<open>json.load\<close>, is either not JSON at all or an object in which each of the two keys
  \<open>id_to_user\<close> and \<open>metadata\<close> may be absent. The file system maps a path to the
  directory there, if any.
\<close>

datatype mappings_file =
    Garbled
  | Mappings "(string \<times> string) list option" "metadata_dict option"

record directory =
  index_bin :: "index_blob option"
  mappings_json :: "mappings_file option"

type_synonym filesystem = "string \<Rightarrow> directory option"

definition save :: "filesystem \<Rightarrow> ANNIndex \<Rightarrow> string \<Rightarrow> error + filesystem" where
  "save fs self path =
     (case index self of
        None \<Rightarrow> Inl ValueError
      | Some g \<Rightarrow>
          Inr (fs(path \<mapsto>
                 \<lparr>index_bin = Some (save_index g),
                  mappings_json =
                    Some (Mappings
                            (Some (dict_of_pairs (map (\<lambda>(k, v). (py_str k, v)) (id_to_user self))))
                            (Some (metadata self)))\<rparr>)))"

text \<open>\<open>{int(k): v for k, v in ...items()}\<close>: the first key that is not a number raises.\<close>

fun int_keys :: "(string \<times> 'v) list \<Rightarrow> error + (int \<times> 'v) list" where
  "int_keys [] = Inr []"
| "int_keys ((k, v) # kvs) =
     (case py_int k of
        Inl e \<Rightarrow> Inl e
      | Inr i \<Rightarrow> (case int_keys kvs of Inl e \<Rightarrow> Inl e | Inr r \<Rightarrow> Inr ((i, v) # r)))"

definition read_mappings :: "filesystem \<Rightarrow> string \<Rightarrow> mappings_file option" where
  "read_mappings fs path = (case fs path of None \<Rightarrow> None | Some d \<Rightarrow> mappings_json d)"

definition read_index_bin :: "filesystem \<Rightarrow> string \<Rightarrow> index_blob option" where
  "read_index_bin fs path = (case fs path of None \<Rightarrow> None | Some d \<Rightarrow> index_bin d)"

text \<open>
  \<open>load\<close>, lines 193-209, with the controller as each exception leaves it.
  \<open>data.get("metadata", {})\<close>, \<open>metadata.get("dim", self.dim)\<close> and
  \<open>metadata.get("space", self.config.space)\<close> fall back to a default when the key is
  absent.
\<close>

definition load :: "filesystem \<Rightarrow> ANNIndex \<Rightarrow> string \<Rightarrow> error option \<times> ANNIndex" where
  "load fs self path =
     (case read_mappings fs path of
        None \<Rightarrow> (Some FileNotFoundError, self)
      | Some Garbled \<Rightarrow> (Some JSONDecodeError, self)
      | Some (Mappings ids md) \<Rightarrow>
          (case ids of
             None \<Rightarrow> (Some KeyError, self)
           | Some kvs \<Rightarrow>
               (case int_keys kvs of
                  Inl e \<Rightarrow> (Some e, self)
                | Inr ikvs \<Rightarrow>
                    let self1 = self\<lparr>id_to_user := dict_of_pairs ikvs\<rparr>;
                        self2 = self1\<lparr>user_to_id :=
                                  dict_of_pairs (map (\<lambda>(k, v). (v, k)) (id_to_user self1))\<rparr>;
                        self3 = self2\<lparr>metadata := (case md of None \<Rightarrow> empty_metadata | Some m \<Rightarrow> m)\<rparr>;
                        self4 = self3\<lparr>dim := (case md_dim (metadata self3) of
                                                 None \<Rightarrow> dim self3 | Some d \<Rightarrow> d)\<rparr>;
                        space' = (case md_space (metadata self4) of
                                    None \<Rightarrow> space (config self4) | Some s \<Rightarrow> s)
                    in (case hnswlib_Index space' (dim self4) of
                          Inl e \<Rightarrow> (Some e, self4)
                        | Inr g0 \<Rightarrow>
                            let self5 = self4\<lparr>index := Some g0\<rparr>
                            in (case read_index_bin fs path of
                                  None \<Rightarrow> (Some (RuntimeError CannotOpenFile), self5)
                                | Some blob \<Rightarrow>
                                    (case load_index g0 blob of
                                       Inl e \<Rightarrow> (Some e, self5)
                                     | Inr g1 \<Rightarrow>
                                         (None, self5\<lparr>index :=
                                            Some (set_ef g1 (ef_search (config self5)))\<rparr>)))))))"

subsection \<open>Notions used to state the properties\<close>

text \<open>
  A candidate survives the filter of \<open>query\<close> when its handle is in the identifier map,
  the external ID there is not the empty string, and the ID is not excluded;
  \<open>query_batch\<close> applies the same filter with nothing excluded.
\<close>

definition survives :: "ANNIndex \<Rightarrow> string set \<Rightarrow> candidate \<Rightarrow> bool" where
  "survives self excl c =
     (case dict_get (id_to_user self) (int (fst c)) of
        None \<Rightarrow> False
      | Some user_id \<Rightarrow> user_id \<noteq> [] \<and> user_id \<notin> excl)"

definition scored :: "ANNIndex \<Rightarrow> candidate \<Rightarrow> string \<times> real" where
  "scored self c =
     (case dict_get (id_to_user self) (int (fst c)) of
        None \<Rightarrow> ([], similarity (space (config self)) (snd c))
      | Some user_id \<Rightarrow> (user_id, similarity (space (config self)) (snd c)))"

definition survivors :: "ANNIndex \<Rightarrow> string set \<Rightarrow> candidate list \<Rightarrow> (string \<times> real) list" where
  "survivors self excl cands = map (scored self) (filter (survives self excl) cands)"

text \<open>A candidate the claim calls non-excluded: its external ID, if any, is not in the set.\<close>

definition non_excluded :: "ANNIndex \<Rightarrow> string set \<Rightarrow> candidate \<Rightarrow> bool" where
  "non_excluded self excl c =
     (case dict_get (id_to_user self) (int (fst c)) of
        None \<Rightarrow> True
      | Some user_id \<Rightarrow> user_id \<notin> excl)"

text \<open>The space names the library knows.\<close>

definition valid_space :: "string \<Rightarrow> bool" where
  "valid_space sp = (sp = ''l2'' \<or> sp = ''ip'' \<or> sp = ''cosine'')"

text \<open>
  The dimension and the space \<open>load\<close> constructs the graph with, for a sidecar whose
  \<open>metadata\<close> is \<open>md\<close>: the recorded value, or the controller's own when the key is
  absent.
\<close>

definition sidecar_dim :: "ANNIndex \<Rightarrow> metadata_dict option \<Rightarrow> int" where
  "sidecar_dim self md =
     (case md of None \<Rightarrow> dim self
      | Some m \<Rightarrow> (case md_dim m of None \<Rightarrow> dim self | Some d \<Rightarrow> d))"

definition sidecar_space :: "ANNIndex \<Rightarrow> metadata_dict option \<Rightarrow> string" where
  "sidecar_space self md =
     (case md of None \<Rightarrow> space (config self)
      | Some m \<Rightarrow> (case md_space m of None \<Rightarrow> space (config self) | Some s \<Rightarrow> s))"

text \<open>
  A controller as a successful \<open>build\<close> leaves it: the graph is there, the metadata
  records its dimension and space, the query-time breadth is the configured one, and no
  handle occurs twice in the identifier map.
\<close>

definition consistent :: "ANNIndex \<Rightarrow> bool" where
  "consistent self =
     (case index self of
        None \<Rightarrow> False
      | Some g \<Rightarrow>
          valid_space (g_space g) \<and> md_dim (metadata self) = Some (g_dim g) \<and>
          md_space (metadata self) = Some (g_space g) \<and> g_ef g = ef_search (config self) \<and>
          distinct (map fst (id_to_user self)))"

text \<open>
  A search that answers one empty row when it is asked for exactly \<open>n\<close> candidates and
  raises at every other count: run under it, an operation shows the count it asks for.
\<close>

definition probe :: "int \<Rightarrow> knn_query" where
  "probe n g qs j = (if j = n then Inr [[]] else Inl (RuntimeError CannotReturnResults))"

subsection \<open>A reference search\<close>

text \<open>
  An instance of the search parameter for the concrete runs below: the exact scan of all
  stored vectors, nearest first. The distance of the space \<open>l2\<close> is the squared
  Euclidean distance; the other two are one minus the inner product, which is the
  cosine distance on the unit vectors the runs use. Like the library, it raises when it
  cannot fill \<open>k\<close> places of a row or when a query row has the wrong dimension.
\<close>

definition space_distance :: "string \<Rightarrow> vector \<Rightarrow> vector \<Rightarrow> real" where
  "space_distance sp a b =
     (if sp = ''l2'' then sum_list (map (\<lambda>(x, y). (x - y) * (x - y)) (zip a b))
      else 1 - sum_list (map (\<lambda>(x, y). x * y) (zip a b)))"

definition scan_row :: "hnsw_index \<Rightarrow> vector \<Rightarrow> nat \<Rightarrow> candidate list" where
  "scan_row g q n =
     take n (sort_key snd (map (\<lambda>(l, v). (l, space_distance (g_space g) v q)) (g_items g)))"

definition exact_knn :: knn_query where
  "exact_knn g qs k =
     (if \<exists>q \<in> set qs. int (length q) \<noteq> g_dim g then Inl (RuntimeError WrongDimensionality)
      else if k < 0 \<or> int (length (g_items g)) < k then Inl (RuntimeError CannotReturnResults)
      else Inr (map (\<lambda>q. scan_row g q (nat k)) qs))"

subsection \<open>Concrete runs\<close>

text \<open>
  Two unit vectors in the plane, indexed under the default configuration: once with the
  external IDs \<open>""\<close> and \<open>"a"\<close>, once with \<open>"a"\<close> and \<open>"b"\<close>. \<open>unit_graph\<close>
  is the graph both builds leave.
\<close>

definition unit_rows :: matrix where "unit_rows = [[1, 0], [0, 1]]"

definition unit_graph :: hnsw_index where
  "unit_graph =
     \<lparr>g_space = ''cosine'', g_dim = 2, g_max_elements = 1000000, g_ef_construction = 200,
      g_M = 16, g_ef = 100, g_items = [(0, [1, 0]), (1, [0, 1])]\<rparr>"

definition blank_index :: ANNIndex where
  "blank_index = snd (build ''t'' (ANNIndex_init None 2) unit_rows ['''', ''a''])"

definition named_index :: ANNIndex where
  "named_index = snd (build ''t'' (ANNIndex_init None 2) unit_rows [''a'', ''b''])"

text \<open>A controller whose configured capacity is 2, of dimension 1.\<close>

definition small_index :: ANNIndex where
  "small_index = ANNIndex_init (Some (ANNIndexConfig_default\<lparr>max_elements := 2\<rparr>)) 1"

text \<open>A saved directory whose sidecar has the identifier map and no \<open>metadata\<close> key.\<close>

definition bare_fs :: filesystem where
  "bare_fs = Map.empty(''d'' \<mapsto>
     \<lparr>index_bin = Some (save_index unit_graph),
      mappings_json = Some (Mappings (Some [(''0'', ''a''), (''1'', ''b'')]) None)\<rparr>)"

text \<open>
  The same two vectors indexed under the space \<open>l2\<close>, the directory \<open>save\<close> writes for
  that controller, and the controller \<open>ANNIndex()\<close> of the default configuration after
  \<open>load\<close> of that directory.
\<close>

definition l2_graph :: hnsw_index where
  "l2_graph = unit_graph\<lparr>g_space := ''l2''\<rparr>"

definition l2_index :: ANNIndex where
  "l2_index = snd (build ''t'' (ANNIndex_init (Some (ANNIndexConfig_default\<lparr>space := ''l2''\<rparr>)) 2)
                     unit_rows [''a'', ''b''])"

definition saved_fs :: filesystem where
  "saved_fs = Map.empty(''d'' \<mapsto>
     \<lparr>index_bin = Some (save_index l2_graph),
      mappings_json = Some (Mappings (Some [(''0'', ''a''), (''1'', ''b'')]) (Some (metadata l2_index)))\<rparr>)"

definition reloaded_index :: ANNIndex where
  "reloaded_index = snd (load saved_fs (ANNIndex_init None 384) ''d'')"

text \<open>
  Thirteen copies of the unit vector of dimension 1, indexed under the default
  configuration with the IDs \<open>"a"\<close> to \<open>"m"\<close>, and the graph that build leaves.
\<close>

definition line_rows :: matrix where
  "line_rows = replicate 13 [1]"

definition line_ids :: "string list" where
  "line_ids = map (\<lambda>c. [c]) ''abcdefghijklm''"

definition line_graph :: hnsw_index where
  "line_graph =
     \<lparr>g_space = ''cosine'', g_dim = 1, g_max_elements = 1000000, g_ef_construction = 200,
      g_M = 16, g_ef = 100, g_items = zip [0..<13] line_rows\<rparr>"

definition line_index :: ANNIndex where
  "line_index = snd (build ''t'' (ANNIndex_init None 1) line_rows line_ids)"

section \<open>Properties\<close>

subsection \<open>Evaluation of the concrete runs\<close>

lemmas eval_defs = build_def Let_def hnswlib_Index_def init_index_def add_items_def set_ef_def
  dict_of_pairs_def py_enumerate_def ANNIndex_init_def ANNIndexConfig_default_def unit_rows_def
  empty_metadata_def upt_rec

lemmas search_defs = exact_knn_def scan_row_def space_distance_def query_k_def truthy_list_def
  get_current_count_def exclude_set_def

lemmas filter_defs = survives_def scored_def survivors_def non_excluded_def dict_get_def
  similarity_def

lemma blank_index_eq:
  "blank_index =
     \<lparr>config = ANNIndexConfig_default, dim = 2, index = Some unit_graph,
      id_to_user = [(0, ''''), (1, ''a'')], user_to_id = [('''', 0), (''a'', 1)],
      metadata = \<lparr>md_n_elements = Some 2, md_dim = Some 2, md_space = Some ''cosine'',
        md_built_at = Some ''t'', md_ef_construction = Some 200, md_M = Some 16\<rparr>\<rparr>"
  by (simp add: blank_index_def eval_defs unit_graph_def)

lemma named_index_eq:
  "named_index =
     \<lparr>config = ANNIndexConfig_default, dim = 2, index = Some unit_graph,
      id_to_user = [(0, ''a''), (1, ''b'')], user_to_id = [(''a'', 0), (''b'', 1)],
      metadata = \<lparr>md_n_elements = Some 2, md_dim = Some 2, md_space = Some ''cosine'',
        md_built_at = Some ''t'', md_ef_construction = Some 200, md_M = Some 16\<rparr>\<rparr>"
  by (simp add: named_index_def eval_defs unit_graph_def)

subsection \<open>The loops as list operations\<close>

lemma query_loop_take:
  "query_loop self k excl cands acc =
     acc @ take (max 1 (nat (k - int (length acc)))) (survivors self excl cands)"
proof (induction cands arbitrary: acc)
  case Nil
  show ?case by (simp add: survivors_def)
next
  case (Cons c cands)
  obtain h d where c: "c = (h, d)" by (cases c)
  show ?case
  proof (cases "survives self excl c")
    case False
    then show ?thesis using Cons.IH [of acc]
      by (auto simp: c survivors_def survives_def split: option.splits)
  next
    case True
    then obtain u where u: "dict_get (id_to_user self) (int h) = Some u" "u \<noteq> []" "u \<notin> excl"
      by (auto simp: c survives_def split: option.splits)
    have sv: "survivors self excl (c # cands) =
                (u, similarity (space (config self)) d) # survivors self excl cands"
      using True u by (simp add: survivors_def scored_def c)
    show ?thesis
    proof (cases "k \<le> int (length acc) + 1")
      case True
      then have "max 1 (nat (k - int (length acc))) = Suc 0" by auto
      with True show ?thesis using u sv by (simp add: c)
    next
      case False
      then have m: "max 1 (nat (k - int (length acc))) = Suc (nat (k - int (length acc) - 1))"
        and m': "max 1 (nat (k - int (length acc) - 1)) = nat (k - int (length acc) - 1)" by auto
      have "query_loop self k excl (c # cands) acc =
              query_loop self k excl cands (acc @ [(u, similarity (space (config self)) d)])"
        using False u by (simp add: c)
      also have "\<dots> = (acc @ [(u, similarity (space (config self)) d)]) @
           take (max 1 (nat (k - int (length (acc @ [(u, similarity (space (config self)) d)])))))
             (survivors self excl cands)"
        by (rule Cons.IH)
      also have "\<dots> = acc @ take (max 1 (nat (k - int (length acc)))) (survivors self excl (c # cands))"
        using m m' sv by (simp add: algebra_simps)
      finally show ?thesis .
    qed
  qed
qed

lemma batch_loop_eq: "batch_loop self cands acc = acc @ survivors self {} cands"
  by (induction cands arbitrary: acc)
     (auto simp: survivors_def survives_def scored_def split: option.splits)

lemma batch_rows_eq: "batch_rows self rows acc = acc @ map (survivors self {}) rows"
  by (induction rows arbitrary: acc) (auto simp: batch_loop_eq)

lemma query_result:
  assumes "index self = Some g" and "knn g [e] (query_k g k ex) = Inr (row # rows)"
  shows "query knn self e k ex = Inr (take (max 1 (nat k)) (survivors self (exclude_set ex) row))"
  using assms by (simp add: query_def query_loop_take)

lemma query_batch_result:
  assumes "index self = Some g" and "knn g es k = Inr rows"
  shows "query_batch knn self es k = Inr (map (survivors self {}) rows)"
  using assms by (simp add: query_batch_def batch_rows_eq)

lemma survivors_member:
  assumes "(u, s) \<in> set (survivors self excl row)"
  shows "u \<noteq> [] \<and> u \<notin> excl \<and>
         (\<exists>h d. (h, d) \<in> set row \<and> dict_get (id_to_user self) (int h) = Some u \<and>
                 s = similarity (space (config self)) d)"
  using assms
  by (fastforce simp: survivors_def survives_def scored_def split: option.splits)

lemma exclude_set_conv: "exclude_set ex = (case ex of None \<Rightarrow> {} | Some xs \<Rightarrow> set xs)"
  by (auto simp: exclude_set_def truthy_list_def split: option.splits)

lemma length_survivors: "length (survivors self excl row) = length (filter (survives self excl) row)"
  by (simp add: survivors_def)

subsection \<open>What \<open>build\<close> leaves\<close>

lemma update_fresh: "k \<notin> fst ` set d \<Longrightarrow> AList.update k v d = d @ [(k, v)]"
  by (induction d) auto

lemma foldl_update_distinct:
  "distinct (map fst (d @ ps)) \<Longrightarrow> foldl (\<lambda>d (k, v). AList.update k v d) d ps = d @ ps"
proof (induction ps arbitrary: d)
  case Nil
  show ?case by simp
next
  case (Cons p ps)
  obtain k v where p: "p = (k, v)" by (cases p)
  from Cons.prems have fresh: "k \<notin> fst ` set d" by (auto simp: p)
  from Cons.prems have "distinct (map fst ((d @ [(k, v)]) @ ps))" by (auto simp: p)
  from Cons.IH [OF this] fresh show ?case by (simp add: p update_fresh)
qed

lemma dict_of_pairs_distinct: "distinct (map fst ps) \<Longrightarrow> dict_of_pairs ps = ps"
  using foldl_update_distinct [of "[]" ps] by (simp add: dict_of_pairs_def)

lemma fst_enumerate_from: "map fst (enumerate_from i xs) = map (\<lambda>j. i + int j) [0..<length xs]"
proof (induction xs arbitrary: i)
  case Nil
  show ?case by simp
next
  case (Cons x xs)
  have "map (\<lambda>j. i + int j) [0..<Suc (length xs)] = i # map (\<lambda>j. i + 1 + int j) [0..<length xs]"
    by (simp add: upt_conv_Cons map_Suc_upt [symmetric] del: upt_Suc)
  with Cons show ?case by simp
qed

lemma distinct_enumerate: "distinct (map fst (py_enumerate xs))"
  by (simp add: py_enumerate_def fst_enumerate_from distinct_map inj_on_def)

lemma length_enumerate_from: "length (enumerate_from i xs) = length xs"
  by (induction xs arbitrary: i) auto

lemma id_map_of_enumerate: "dict_of_pairs (py_enumerate xs) = py_enumerate xs"
  by (rule dict_of_pairs_distinct) (rule distinct_enumerate)

lemma build_success:
  assumes "valid_space (space (config self))"
    and "\<forall>row \<in> set embeddings. int (length row) = dim self"
  shows "build now self embeddings user_ids =
     (None,
      self\<lparr>index := Some \<lparr>g_space = space (config self), g_dim = dim self,
                g_max_elements = max (int (length embeddings)) (max_elements (config self)),
                g_ef_construction = ef_construction (config self), g_M = M (config self),
                g_ef = ef_search (config self),
                g_items = zip [0..<length embeddings] embeddings\<rparr>,
           id_to_user := py_enumerate user_ids,
           user_to_id := dict_of_pairs (map (\<lambda>(i, uid). (uid, i)) (py_enumerate user_ids)),
           metadata := \<lparr>md_n_elements = Some (int (length embeddings)),
                        md_dim = Some (dim self),
                        md_space = Some (space (config self)),
                        md_built_at = Some now,
                        md_ef_construction = Some (ef_construction (config self)),
                        md_M = Some (M (config self))\<rparr>\<rparr>)"
  using assms
  by (simp add: build_def valid_space_def hnswlib_Index_def init_index_def add_items_def
      set_ef_def Let_def id_map_of_enumerate)

text \<open>
  With the library's checks as modelled, only the space name and the row dimensions
  decide whether \<open>build\<close> raises.
\<close>

lemma build_outcome:
  "fst (build now self embeddings user_ids) =
     (if \<not> valid_space (space (config self)) then Some (RuntimeError BadSpaceName)
      else if \<exists>row \<in> set embeddings. int (length row) \<noteq> dim self
      then Some (RuntimeError WrongDimensionality) else None)"
  by (auto simp: build_def valid_space_def hnswlib_Index_def init_index_def add_items_def
      set_ef_def Let_def)

subsection \<open>Exclusion and result length of \<open>query\<close>\<close>

text \<open>
  Claim C1, as amended. For a built index, if the graph answers the request of \<open>query\<close>
  with a row of candidates and \<open>k \<ge> 1\<close>, then \<open>query\<close> returns a list in which no
  external ID belongs to the exclusion set, and whose length is the minimum of \<open>k\<close> and
  the number of fetched candidates that survive the filter: those whose handle is in the
  identifier map with an external ID that is not the empty string and not excluded.
\<close>

theorem query_exclusion_and_length:
  assumes "index self = Some g"
    and "knn g [embedding] (query_k g k exclude_ids) = Inr (row # rows)"
    and "1 \<le> k"
  shows "\<exists>rs. query knn self embedding k exclude_ids = Inr rs \<and>
           fst ` set rs \<inter> (case exclude_ids of None \<Rightarrow> {} | Some xs \<Rightarrow> set xs) = {} \<and>
           length rs = min (nat k) (length (filter (survives self (exclude_set exclude_ids)) row))"
proof -
  let ?rs = "take (max 1 (nat k)) (survivors self (exclude_set exclude_ids) row)"
  have q: "query knn self embedding k exclude_ids = Inr ?rs"
    using assms(1,2) by (rule query_result)
  have "u \<notin> exclude_set exclude_ids" if "(u, s) \<in> set ?rs" for u s
    using that survivors_member [of u s self "exclude_set exclude_ids" row]
    by (auto dest: in_set_takeD)
  then have "fst ` set ?rs \<inter> exclude_set exclude_ids = {}" by auto
  moreover have "max 1 (nat k) = nat k" using assms(3) by auto
  ultimately show ?thesis using q
    by (auto simp: length_survivors exclude_set_conv)
qed

text \<open>
  A run of the theorem: the index with the IDs \<open>""\<close> and \<open>"a"\<close>, one result wanted,
  \<open>"b"\<close> excluded.
\<close>

theorem query_exclusion_and_length_witness:
  "index blank_index = Some unit_graph \<and>
   exact_knn unit_graph [[1, 0]] (query_k unit_graph 1 (Some [''b''])) = Inr ([(0, 0), (1, 1)] # []) \<and>
   (1::int) \<le> 1 \<and>
   query exact_knn blank_index [1, 0] 1 (Some [''b'']) = Inr [(''a'', 0)] \<and>
   filter (survives blank_index (exclude_set (Some [''b'']))) [(0, 0), (1, 1)] = [(1, 1)]"
  using query_exclusion_and_length [of blank_index unit_graph exact_knn "[1, 0]" 1 "Some [''b'']"
      "[(0, 0), (1, 1)]" "[]"]
  by (simp add: blank_index_eq ANNIndexConfig_default_def query_def search_defs filter_defs unit_graph_def)

text \<open>
  Claim C1 as stated counts every non-excluded candidate. On the index with the IDs
  \<open>""\<close> and \<open>"a"\<close>, with \<open>k = 2\<close> and no exclusion, the graph hands back two
  candidates, both non-excluded, and \<open>query\<close> returns one result, not two.
\<close>

theorem query_length_counterexample:
  "index blank_index = Some unit_graph \<and>
   exact_knn unit_graph [[1, 0]] (query_k unit_graph 2 None) = Inr [[(0, 0), (1, 1)]] \<and>
   filter (non_excluded blank_index (exclude_set None)) [(0, 0), (1, 1)] = [(0, 0), (1, 1)] \<and>
   query exact_knn blank_index [1, 0] 2 None = Inr [(''a'', 0)] \<and>
   length [(''a'', 0::real)] \<noteq> min (nat 2) (length [(0::nat, 0::real), (1, 1)])"
  by (simp add: blank_index_eq ANNIndexConfig_default_def query_def search_defs filter_defs unit_graph_def)

subsection \<open>The number of candidates requested\<close>

lemma query_k_conv:
  "query_k g k ex =
     min (k + int (case ex of None \<Rightarrow> 0 | Some xs \<Rightarrow> length xs) + 10) (int (get_current_count g))"
  by (simp add: query_k_def truthy_list_def Let_def split: option.splits)

text \<open>
  Claim C5, as amended. On a built index, \<open>query\<close> asks the graph for exactly
  \<open>min (k + len(exclude_ids) + 10) (current element count)\<close> candidates, where every
  listed ID counts, also one listed twice, and a missing or empty exclusion list counts 0.
  The outcome of \<open>query\<close> is what the graph answers at that count: its error, or the first
  survivors of its first row. Under a graph that answers at the count \<open>n\<close> only, \<open>query\<close>
  returns normally if and only if \<open>n\<close> is that number.
\<close>

theorem query_candidate_request:
  assumes "index self = Some g"
  shows "query knn self embedding k exclude_ids =
           (case knn g [embedding]
                   (min (k + int (case exclude_ids of None \<Rightarrow> 0 | Some xs \<Rightarrow> length xs) + 10)
                        (int (get_current_count g))) of
              Inl e \<Rightarrow> Inl e
            | Inr rows \<Rightarrow>
                (case rows of
                   [] \<Rightarrow> Inl IndexError
                 | row # _ \<Rightarrow>
                     Inr (take (max 1 (nat k)) (survivors self (exclude_set exclude_ids) row))))
         \<and> ((query (probe n) self embedding k exclude_ids = Inr []) \<longleftrightarrow>
              n = min (k + int (case exclude_ids of None \<Rightarrow> 0 | Some xs \<Rightarrow> length xs) + 10)
                      (int (get_current_count g)))"
proof
  show at_count: "query knn self embedding k exclude_ids =
           (case knn g [embedding]
                   (min (k + int (case exclude_ids of None \<Rightarrow> 0 | Some xs \<Rightarrow> length xs) + 10)
                        (int (get_current_count g))) of
              Inl e \<Rightarrow> Inl e
            | Inr rows \<Rightarrow>
                (case rows of
                   [] \<Rightarrow> Inl IndexError
                 | row # _ \<Rightarrow>
                     Inr (take (max 1 (nat k)) (survivors self (exclude_set exclude_ids) row))))"
    for knn
    using assms
    by (simp add: query_def query_k_conv query_loop_take split: sum.splits list.splits)
  show "(query (probe n) self embedding k exclude_ids = Inr []) \<longleftrightarrow>
          n = min (k + int (case exclude_ids of None \<Rightarrow> 0 | Some xs \<Rightarrow> length xs) + 10)
                  (int (get_current_count g))"
    unfolding at_count [of "probe n"] by (simp add: probe_def survivors_def)
qed

text \<open>
  A run of the theorem: one result wanted, one ID excluded, two elements in the graph, so
  two candidates are asked for.
\<close>

theorem query_candidate_request_witness:
  "index named_index = Some unit_graph \<and>
   exact_knn unit_graph [[1, 0]] 2 = Inr [[(0, 0), (1, 1)]] \<and>
   query exact_knn named_index [1, 0] 1 (Some [''b'']) = Inr [(''a'', 1)] \<and>
   query (probe 2) named_index [1, 0] 1 (Some [''b'']) = Inr [] \<and>
   query (probe 12) named_index [1, 0] 1 (Some [''b'']) = Inl (RuntimeError CannotReturnResults)"
  using query_candidate_request [where self = named_index and g = unit_graph and knn = exact_knn
      and embedding = "[1, 0]" and k = 1 and exclude_ids = "Some [''b'']" and n = 2]
    query_candidate_request [where self = named_index and g = unit_graph and knn = exact_knn
      and embedding = "[1, 0]" and k = 1 and exclude_ids = "Some [''b'']" and n = 12]
  by (simp add: named_index_eq ANNIndexConfig_default_def query_def search_defs filter_defs
      unit_graph_def probe_def)

lemma line_index_graph: "index line_index = Some line_graph"
proof -
  have "valid_space (space (config (ANNIndex_init None 1)))"
    by (simp add: ANNIndex_init_def ANNIndexConfig_default_def valid_space_def)
  moreover have "\<forall>row \<in> set line_rows. int (length row) = dim (ANNIndex_init None 1)"
    by (simp add: line_rows_def ANNIndex_init_def)
  ultimately show ?thesis
    by (simp add: line_index_def build_success line_graph_def line_rows_def ANNIndex_init_def
        ANNIndexConfig_default_def)
qed

text \<open>
  Claim C5 as stated counts the exclusion set. With one ID listed twice, one result
  wanted and thirteen elements in the graph, the set has one member and the claim gives
  12 candidates; \<open>query\<close> asks for 13.
\<close>

theorem query_candidate_request_counterexample:
  "index line_index = Some line_graph \<and>
   get_current_count line_graph = 13 \<and>
   card (exclude_set (Some [''x'', ''x''])) = 1 \<and>
   min (1 + int (card (exclude_set (Some [''x'', ''x'']))) + 10) (int (get_current_count line_graph)) = 12 \<and>
   query_k line_graph 1 (Some [''x'', ''x'']) = 13 \<and>
   query (probe 13) line_index [1] 1 (Some [''x'', ''x'']) = Inr [] \<and>
   query (probe 12) line_index [1] 1 (Some [''x'', ''x'']) = Inl (RuntimeError CannotReturnResults)"
  by (simp add: line_index_graph query_def probe_def query_k_def truthy_list_def
      get_current_count_def line_graph_def line_rows_def exclude_set_def)

subsection \<open>Score conversion\<close>

lemma scored_survivor:
  assumes "survives self excl c"
  shows "\<exists>u. dict_get (id_to_user self) (int (fst c)) = Some u \<and> u \<noteq> [] \<and> u \<notin> excl \<and>
             scored self c = (u, similarity (space (config self)) (snd c))"
  using assms by (auto simp: survives_def scored_def split: option.splits)

lemma survivors_translation:
  "list_all2 (\<lambda>(u, s) (h, d). dict_get (id_to_user self) (int h) = Some u \<and>
                 s = (if space (config self) = ''cosine'' then 1 - d else - d))
     (take n (survivors self excl row)) (take n (filter (survives self excl) row))"
proof -
  have "(case scored self c of (u, s) \<Rightarrow> \<lambda>(h, d). dict_get (id_to_user self) (int h) = Some u \<and>
                 s = (if space (config self) = ''cosine'' then 1 - d else - d)) c"
    if "c \<in> set (take n (filter (survives self excl) row))" for c
  proof -
    from that have "survives self excl c" by (auto dest: in_set_takeD)
    from scored_survivor [OF this] show ?thesis
      by (cases c) (auto simp: similarity_def)
  qed
  then show ?thesis
    by (simp add: survivors_def take_map list_all2_map1 list_all2_same)
qed

text \<open>
  Claim C6. The results of \<open>query\<close> are, in order, the first surviving candidates of the
  fetched row, and the results of \<open>query_batch\<close> the surviving candidates of each row:
  each with the external ID of its handle and the score \<open>1 - distance\<close> when the
  configured space is \<open>cosine\<close>, \<open>- distance\<close> for every other space. In both cases a
  smaller distance gives a higher score.
\<close>

theorem score_conversion:
  "(index self = Some g \<longrightarrow> knn g [embedding] (query_k g k exclude_ids) = Inr (row # rows) \<longrightarrow>
      (\<exists>rs. query knn self embedding k exclude_ids = Inr rs \<and>
        list_all2 (\<lambda>(u, s) (h, d). dict_get (id_to_user self) (int h) = Some u \<and>
                     s = (if space (config self) = ''cosine'' then 1 - d else - d))
          rs (take (max 1 (nat k)) (filter (survives self (exclude_set exclude_ids)) row))))
   \<and> (index self = Some g \<longrightarrow> knn g embeddings k = Inr brows \<longrightarrow>
      (\<exists>res. query_batch knn self embeddings k = Inr res \<and>
        list_all2 (list_all2 (\<lambda>(u, s) (h, d). dict_get (id_to_user self) (int h) = Some u \<and>
                     s = (if space (config self) = ''cosine'' then 1 - d else - d)))
          res (map (filter (survives self {})) brows)))
   \<and> (d1 \<le> d2 \<longrightarrow> similarity (space (config self)) d2 \<le> similarity (space (config self)) d1)"
proof (intro conjI impI)
  assume "index self = Some g" "knn g [embedding] (query_k g k exclude_ids) = Inr (row # rows)"
  then have "query knn self embedding k exclude_ids =
               Inr (take (max 1 (nat k)) (survivors self (exclude_set exclude_ids) row))"
    by (rule query_result)
  then show "\<exists>rs. query knn self embedding k exclude_ids = Inr rs \<and>
        list_all2 (\<lambda>(u, s) (h, d). dict_get (id_to_user self) (int h) = Some u \<and>
                     s = (if space (config self) = ''cosine'' then 1 - d else - d))
          rs (take (max 1 (nat k)) (filter (survives self (exclude_set exclude_ids)) row))"
    using survivors_translation by blast
next
  assume "index self = Some g" "knn g embeddings k = Inr brows"
  then have q: "query_batch knn self embeddings k = Inr (map (survivors self {}) brows)"
    by (rule query_batch_result)
  have "list_all2 (\<lambda>(u, s) (h, d). dict_get (id_to_user self) (int h) = Some u \<and>
                     s = (if space (config self) = ''cosine'' then 1 - d else - d))
          (survivors self {} r) (filter (survives self {}) r)" for r
    using survivors_translation [of self "length r" "{}" r] by (simp add: survivors_def)
  then have "list_all2 (list_all2 (\<lambda>(u, s) (h, d). dict_get (id_to_user self) (int h) = Some u \<and>
                     s = (if space (config self) = ''cosine'' then 1 - d else - d)))
          (map (survivors self {}) brows) (map (filter (survives self {})) brows)"
    by (simp add: list_all2_map1 list_all2_map2 list_all2_same)
  with q show "\<exists>res. query_batch knn self embeddings k = Inr res \<and>
        list_all2 (list_all2 (\<lambda>(u, s) (h, d). dict_get (id_to_user self) (int h) = Some u \<and>
                     s = (if space (config self) = ''cosine'' then 1 - d else - d)))
          res (map (filter (survives self {})) brows)"
    by blast
next
  assume "d1 \<le> d2"
  then show "similarity (space (config self)) d2 \<le> similarity (space (config self)) d1"
    by (simp add: similarity_def)
qed

lemmas run_defs = ANNIndexConfig_default_def query_def query_batch_def search_defs filter_defs
  unit_graph_def

text \<open>A run of the theorem on the index with the IDs \<open>"a"\<close> and \<open>"b"\<close>.\<close>

theorem score_conversion_witness:
  "index named_index = Some unit_graph \<and>
   exact_knn unit_graph [[1, 0]] (query_k unit_graph 2 None) = Inr ([(0, 0), (1, 1)] # []) \<and>
   query exact_knn named_index [1, 0] 2 None = Inr [(''a'', 1 - 0), (''b'', 1 - 1)] \<and>
   exact_knn unit_graph [[1, 0]] 2 = Inr [[(0, 0), (1, 1)]] \<and>
   query_batch exact_knn named_index [[1, 0]] 2 = Inr [[(''a'', 1 - 0), (''b'', 1 - 1)]] \<and>
   (0::real) \<le> 1 \<and>
   similarity (space (config named_index)) 1 \<le> similarity (space (config named_index)) 0"
  using score_conversion [where self = named_index and g = unit_graph and knn = exact_knn
      and embedding = "[1, 0]" and k = 2 and exclude_ids = None and row = "[(0, 0), (1, 1)]"
      and rows = "[]" and embeddings = "[[1, 0]]" and brows = "[[(0, 0), (1, 1)]]"
      and ?d1.0 = 0 and ?d2.0 = 1]
  by (simp add: named_index_eq run_defs)

subsection \<open>Order of the results\<close>

lemma snd_scored: "snd (scored self c) = similarity (space (config self)) (snd c)"
  by (simp add: scored_def split: option.splits)

lemma survivors_descending:
  assumes "sorted (map snd row)"
  shows "sorted_wrt (\<lambda>a b. a \<ge> b) (map snd (survivors self excl row))"
proof -
  from assms have "sorted_wrt (\<lambda>x y. snd x \<le> snd y) row"
    by (simp add: sorted_wrt_map)
  then have "sorted_wrt (\<lambda>x y. snd x \<le> snd y) (filter (survives self excl) row)"
    by (rule sorted_wrt_filter)
  then have "sorted_wrt (\<lambda>x y. snd (scored self x) \<ge> snd (scored self y))
               (filter (survives self excl) row)"
    by (rule sorted_wrt_mono_rel [rotated]) (simp add: snd_scored similarity_def)
  then show ?thesis
    by (simp add: survivors_def sorted_wrt_map)
qed

text \<open>
  Claim C7. If the graph delivers the candidates of the row in ascending distance, the
  list \<open>query\<close> returns is in non-increasing score order.
\<close>

theorem query_order:
  assumes "index self = Some g"
    and "knn g [embedding] (query_k g k exclude_ids) = Inr (row # rows)"
    and "sorted (map snd row)"
  shows "\<exists>rs. query knn self embedding k exclude_ids = Inr rs \<and>
              sorted_wrt (\<lambda>a b. a \<ge> b) (map snd rs)"
proof -
  let ?rs = "take (max 1 (nat k)) (survivors self (exclude_set exclude_ids) row)"
  have "query knn self embedding k exclude_ids = Inr ?rs"
    using assms(1,2) by (rule query_result)
  moreover have "sorted_wrt (\<lambda>a b. a \<ge> b) (map snd ?rs)"
    using survivors_descending [OF assms(3), of self "exclude_set exclude_ids"]
    by (simp add: take_map [symmetric])
  ultimately show ?thesis by blast
qed

text \<open>A run of the theorem: both elements fetched, nearest first.\<close>

theorem query_order_witness:
  "index named_index = Some unit_graph \<and>
   exact_knn unit_graph [[1, 0]] (query_k unit_graph 2 None) = Inr ([(0, 0), (1, 1)] # []) \<and>
   sorted (map snd [(0::nat, 0::real), (1, 1)]) \<and>
   query exact_knn named_index [1, 0] 2 None = Inr [(''a'', 1), (''b'', 0)] \<and>
   sorted_wrt (\<lambda>a b. a \<ge> b) (map snd [(''a'', 1::real), (''b'', 0)])"
  using query_order [of named_index unit_graph exact_knn "[1, 0]" 2 None "[(0, 0), (1, 1)]" "[]"]
  by (simp add: named_index_eq run_defs)

subsection \<open>The empty external ID\<close>

text \<open>
  Claim C10. On a built index, \<open>query\<close> and \<open>query_batch\<close> return without an error
  whenever the graph answers, no result carries the empty string as its external ID, and
  every result is the translation of a fetched candidate whose handle is in the map: a
  candidate is kept only when its external ID is present and not empty.
\<close>

theorem empty_external_id_omitted:
  assumes "index self = Some g"
  shows "(knn g [embedding] (query_k g k exclude_ids) = Inr (row # rows) \<longrightarrow>
           (\<exists>rs. query knn self embedding k exclude_ids = Inr rs \<and>
              (\<forall>(u, s) \<in> set rs. u \<noteq> [] \<and>
                 (\<exists>(h, d) \<in> set row. dict_get (id_to_user self) (int h) = Some u))))
       \<and> (knn g embeddings k = Inr brows \<longrightarrow>
           (\<exists>res. query_batch knn self embeddings k = Inr res \<and> length res = length brows \<and>
              (\<forall>i < length brows. \<forall>(u, s) \<in> set (res ! i). u \<noteq> [] \<and>
                 (\<exists>(h, d) \<in> set (brows ! i). dict_get (id_to_user self) (int h) = Some u))))"
proof (intro conjI impI)
  assume "knn g [embedding] (query_k g k exclude_ids) = Inr (row # rows)"
  with assms have "query knn self embedding k exclude_ids =
      Inr (take (max 1 (nat k)) (survivors self (exclude_set exclude_ids) row))"
    by (rule query_result)
  moreover have "u \<noteq> [] \<and> (\<exists>(h, d) \<in> set row. dict_get (id_to_user self) (int h) = Some u)"
    if "(u, s) \<in> set (take (max 1 (nat k)) (survivors self (exclude_set exclude_ids) row))" for u s
    using survivors_member [of u s self "exclude_set exclude_ids" row] that
    by (auto dest: in_set_takeD)
  ultimately show "\<exists>rs. query knn self embedding k exclude_ids = Inr rs \<and>
              (\<forall>(u, s) \<in> set rs. u \<noteq> [] \<and>
                 (\<exists>(h, d) \<in> set row. dict_get (id_to_user self) (int h) = Some u))"
    by blast
next
  assume "knn g embeddings k = Inr brows"
  with assms have "query_batch knn self embeddings k = Inr (map (survivors self {}) brows)"
    by (rule query_batch_result)
  moreover have "u \<noteq> [] \<and> (\<exists>(h, d) \<in> set (brows ! i). dict_get (id_to_user self) (int h) = Some u)"
    if "i < length brows" "(u, s) \<in> set (map (survivors self {}) brows ! i)" for i u s
    using survivors_member [of u s self "{}" "brows ! i"] that by auto
  ultimately show "\<exists>res. query_batch knn self embeddings k = Inr res \<and> length res = length brows \<and>
              (\<forall>i < length brows. \<forall>(u, s) \<in> set (res ! i). u \<noteq> [] \<and>
                 (\<exists>(h, d) \<in> set (brows ! i). dict_get (id_to_user self) (int h) = Some u))"
    by fastforce
qed

text \<open>
  A run of the theorem: handle 0 carries the empty ID and is the nearest candidate,
  nothing is excluded, and both operations leave it out.
\<close>

theorem empty_external_id_omitted_witness:
  "index blank_index = Some unit_graph \<and>
   dict_get (id_to_user blank_index) 0 = Some [] \<and>
   exact_knn unit_graph [[1, 0]] (query_k unit_graph 1 None) = Inr ([(0, 0), (1, 1)] # []) \<and>
   query exact_knn blank_index [1, 0] 1 None = Inr [(''a'', 0)] \<and>
   exact_knn unit_graph [[1, 0]] 2 = Inr [[(0, 0), (1, 1)]] \<and>
   query_batch exact_knn blank_index [[1, 0]] 2 = Inr [[(''a'', 0)]]"
  using empty_external_id_omitted [where self = blank_index and g = unit_graph and knn = exact_knn
      and embedding = "[1, 0]" and k = 1 and exclude_ids = None and row = "[(0, 0), (1, 1)]"
      and rows = "[]" and embeddings = "[[1, 0]]" and brows = "[[(0, 0), (1, 1)]]"]
  by (simp add: blank_index_eq run_defs)

subsection \<open>Rows of \<open>query_batch\<close>\<close>

lemma length_filter_full: "length (filter P xs) = length xs \<longleftrightarrow> (\<forall>x \<in> set xs. P x)"
proof (induction xs)
  case Nil
  show ?case by simp
next
  case (Cons x xs)
  have le: "length (filter P xs) \<le> length xs" by (rule length_filter_le)
  show ?case
  proof (cases "P x")
    case True
    with Cons show ?thesis by simp
  next
    case False
    from le have "length (filter P xs) \<noteq> Suc (length xs)" by linarith
    with False show ?thesis by simp
  qed
qed

text \<open>
  Claim C4, as amended. For a built index, if the graph answers a \<open>query_batch\<close> call of
  \<open>m\<close> rows with \<open>m\<close> rows of \<open>k\<close> candidates, the outer list has \<open>m\<close> entries in
  row order; entry \<open>i\<close> holds the candidates of row \<open>i\<close> whose handle maps to a
  non-empty external ID, so at most \<open>k\<close> results, and exactly \<open>k\<close> if and only if every
  candidate of the row does.
\<close>

theorem query_batch_rows:
  assumes "index self = Some g"
    and "knn g embeddings k = Inr rows"
    and "length rows = length embeddings"
    and "\<forall>row \<in> set rows. int (length row) = k"
  shows "\<exists>res. query_batch knn self embeddings k = Inr res \<and>
           length res = length embeddings \<and>
           (\<forall>i < length embeddings.
              res ! i = survivors self {} (rows ! i) \<and>
              int (length (res ! i)) \<le> k \<and>
              (int (length (res ! i)) = k \<longleftrightarrow> (\<forall>c \<in> set (rows ! i). survives self {} c)))"
proof -
  let ?res = "map (survivors self {}) rows"
  have q: "query_batch knn self embeddings k = Inr ?res"
    using assms(1,2) by (rule query_batch_result)
  have "?res ! i = survivors self {} (rows ! i) \<and> int (length (?res ! i)) \<le> k \<and>
        (int (length (?res ! i)) = k \<longleftrightarrow> (\<forall>c \<in> set (rows ! i). survives self {} c))"
    if "i < length embeddings" for i
  proof -
    from that assms(3) have i: "i < length rows" by simp
    then have k: "int (length (rows ! i)) = k" using assms(4) by simp
    have le: "int (length (filter (survives self {}) (rows ! i))) \<le> k"
      unfolding k [symmetric] by (simp)
    have "int (length (filter (survives self {}) (rows ! i))) = k
            \<longleftrightarrow> (\<forall>c \<in> set (rows ! i). survives self {} c)"
      unfolding k [symmetric] by (simp add: length_filter_full)
    with i le show ?thesis
      by (simp add: length_survivors)
  qed
  with q assms(3) show ?thesis by simp
qed

text \<open>A run of the theorem: two query rows against the index with the IDs \<open>"a"\<close> and \<open>"b"\<close>.\<close>

theorem query_batch_rows_witness:
  "index named_index = Some unit_graph \<and>
   exact_knn unit_graph [[1, 0], [0, 1]] 2 = Inr [[(0, 0), (1, 1)], [(1, 0), (0, 1)]] \<and>
   length [[(0::nat, 0::real), (1, 1)], [(1, 0), (0, 1)]] = length [[1, 0], [0, 1::real]] \<and>
   int (length [(0::nat, 0::real), (1, 1)]) = 2 \<and> int (length [(1::nat, 0::real), (0, 1)]) = 2 \<and>
   query_batch exact_knn named_index [[1, 0], [0, 1]] 2
     = Inr [[(''a'', 1), (''b'', 0)], [(''b'', 1), (''a'', 0)]]"
  using query_batch_rows [where self = named_index and g = unit_graph and knn = exact_knn
      and embeddings = "[[1, 0], [0, 1]]" and k = 2
      and rows = "[[(0, 0), (1, 1)], [(1, 0), (0, 1)]]"]
  by (simp add: named_index_eq run_defs)

text \<open>
  Claim C4 as stated promises \<open>k\<close> results per row when the index holds at least \<open>k\<close>
  elements. The index with the IDs \<open>""\<close> and \<open>"a"\<close> holds 2 elements, and a row queried
  with \<open>k = 2\<close> has one result.
\<close>

theorem query_batch_count_counterexample:
  "index blank_index = Some unit_graph \<and>
   get_current_count unit_graph = 2 \<and>
   exact_knn unit_graph [[1, 0]] 2 = Inr [[(0, 0), (1, 1)]] \<and>
   query_batch exact_knn blank_index [[1, 0]] 2 = Inr [[(''a'', 0)]] \<and>
   length [(''a'', 0::real)] < 2"
  by (simp add: blank_index_eq run_defs)

subsection \<open>Capacity and the ID sequence of \<open>build\<close>\<close>

text \<open>
  Claim C8. With a space name the library knows, \<open>build\<close> on \<open>N\<close> embeddings leaves a
  graph of capacity \<open>max N max_elements\<close>, never fails for lack of capacity, and, when
  every row has the configured dimension, succeeds with all \<open>N\<close> rows stored: also for
  \<open>N\<close> larger than the configured \<open>max_elements\<close>.
\<close>

theorem build_capacity:
  assumes "valid_space (space (config self))"
  shows "fst (build now self embeddings user_ids) \<noteq> Some (RuntimeError ExceedsLimit) \<and>
         (\<exists>g. index (snd (build now self embeddings user_ids)) = Some g \<and>
              g_max_elements g = max (int (length embeddings)) (max_elements (config self))) \<and>
         ((\<forall>row \<in> set embeddings. int (length row) = dim self) \<longrightarrow>
            fst (build now self embeddings user_ids) = None \<and>
            (\<exists>g. index (snd (build now self embeddings user_ids)) = Some g \<and>
                 get_current_count g = length embeddings))"
proof (intro conjI impI)
  show "fst (build now self embeddings user_ids) \<noteq> Some (RuntimeError ExceedsLimit)"
    by (simp add: build_outcome)
next
  show "\<exists>g. index (snd (build now self embeddings user_ids)) = Some g \<and>
              g_max_elements g = max (int (length embeddings)) (max_elements (config self))"
    using assms
    by (auto simp: build_def valid_space_def hnswlib_Index_def init_index_def add_items_def
        set_ef_def Let_def)
next
  assume rows: "\<forall>row \<in> set embeddings. int (length row) = dim self"
  show "fst (build now self embeddings user_ids) = None"
    using assms rows by (simp add: build_outcome)
  show "\<exists>g. index (snd (build now self embeddings user_ids)) = Some g \<and>
                 get_current_count g = length embeddings"
    by (simp add: build_success [OF assms rows] get_current_count_def)
qed

text \<open>A run of the theorem: three rows, configured capacity two.\<close>

theorem build_capacity_witness:
  "valid_space (space (config small_index)) \<and>
   max_elements (config small_index) < int (length [[1], [- 1], [1::real]]) \<and>
   fst (build ''t'' small_index [[1], [- 1], [1]] [''a'', ''b'', ''c'']) = None \<and>
   map_option g_max_elements (index (snd (build ''t'' small_index [[1], [- 1], [1]] [''a'', ''b'', ''c''])))
     = Some 3 \<and>
   map_option get_current_count (index (snd (build ''t'' small_index [[1], [- 1], [1]] [''a'', ''b'', ''c''])))
     = Some 3"
  using build_capacity [of small_index "''t''" "[[1], [- 1], [1]]" "[''a'', ''b'', ''c'']"]
  by (simp add: small_index_def valid_space_def get_current_count_def eval_defs)

text \<open>
  Claim C3, as amended. \<open>build\<close> never compares the number of rows with the number of
  external IDs: whether it fails, and the graph it allocates, do not depend on the ID
  sequence. When it succeeds, whatever the two lengths, the graph holds all rows and the
  identifier map enumerates the IDs given, in place of the prior state.
\<close>

theorem build_ignores_id_count:
  "fst (build now self embeddings user_ids) = fst (build now self embeddings user_ids') \<and>
   index (snd (build now self embeddings user_ids)) = index (snd (build now self embeddings user_ids')) \<and>
   (fst (build now self embeddings user_ids) = None \<longrightarrow>
      (\<exists>g. index (snd (build now self embeddings user_ids)) = Some g \<and>
           get_current_count g = length embeddings) \<and>
      id_to_user (snd (build now self embeddings user_ids)) = py_enumerate user_ids \<and>
      length (id_to_user (snd (build now self embeddings user_ids))) = length user_ids)"
proof (intro conjI impI)
  show "fst (build now self embeddings user_ids) = fst (build now self embeddings user_ids')"
    by (simp add: build_outcome)
next
  show "index (snd (build now self embeddings user_ids)) = index (snd (build now self embeddings user_ids'))"
    by (auto simp: build_def hnswlib_Index_def init_index_def add_items_def set_ef_def Let_def)
next
  assume ok: "fst (build now self embeddings user_ids) = None"
  then have v: "valid_space (space (config self))"
    and rows: "\<forall>row \<in> set embeddings. int (length row) = dim self"
    by (auto simp: build_outcome split: if_splits)
  show "\<exists>g. index (snd (build now self embeddings user_ids)) = Some g \<and>
           get_current_count g = length embeddings"
    by (simp add: build_success [OF v rows] get_current_count_def)
  show "id_to_user (snd (build now self embeddings user_ids)) = py_enumerate user_ids"
    by (simp add: build_success [OF v rows])
  then show "length (id_to_user (snd (build now self embeddings user_ids))) = length user_ids"
    by (simp add: py_enumerate_def length_enumerate_from)
qed

text \<open>A run of the theorem: two rows, one external ID.\<close>

theorem build_ignores_id_count_witness:
  "fst (build ''t'' (ANNIndex_init None 2) unit_rows [''a''])
     = fst (build ''t'' (ANNIndex_init None 2) unit_rows [''a'', ''b'', ''c'']) \<and>
   fst (build ''t'' (ANNIndex_init None 2) unit_rows [''a'']) = None \<and>
   index (snd (build ''t'' (ANNIndex_init None 2) unit_rows [''a'']))
     = index (snd (build ''t'' (ANNIndex_init None 2) unit_rows [''a'', ''b'', ''c''])) \<and>
   map_option get_current_count (index (snd (build ''t'' (ANNIndex_init None 2) unit_rows [''a''])))
     = Some 2 \<and>
   id_to_user (snd (build ''t'' (ANNIndex_init None 2) unit_rows [''a''])) = [(0, ''a'')]"
  using build_ignores_id_count [of "''t''" "ANNIndex_init None 2" unit_rows "[''a'']"
      "[''a'', ''b'', ''c'']"]
  by (simp add: valid_space_def get_current_count_def eval_defs)

text \<open>
  Claim C3 as stated wants the mismatched call to fail with the prior state untouched.
  On a fresh controller, \<open>build\<close> with two rows and one ID returns normally, with a graph
  of two elements allocated and a one-entry identifier map.
\<close>

theorem build_length_mismatch_counterexample:
  "length unit_rows = 2 \<and> length [''a''] = 1 \<and>
   index (ANNIndex_init None 2) = None \<and>
   build ''t'' (ANNIndex_init None 2) unit_rows [''a''] =
     (None,
      \<lparr>config = ANNIndexConfig_default, dim = 2, index = Some unit_graph,
       id_to_user = [(0, ''a'')], user_to_id = [(''a'', 0)],
       metadata = \<lparr>md_n_elements = Some 2, md_dim = Some 2, md_space = Some ''cosine'',
         md_built_at = Some ''t'', md_ef_construction = Some 200, md_M = Some 16\<rparr>\<rparr>)"
  by (simp add: eval_defs unit_graph_def)

subsection \<open>Failures of \<open>load\<close>\<close>

lemma load_success:
  assumes "read_mappings fs path = Some (Mappings (Some kvs) md)"
    and "int_keys kvs = Inr ikvs"
    and "valid_space (sidecar_space self md)"
    and "read_index_bin fs path = Some blob"
  shows "load fs self path =
     (None,
      self\<lparr>id_to_user := dict_of_pairs ikvs,
           user_to_id := dict_of_pairs (map (\<lambda>(k, v). (v, k)) (dict_of_pairs ikvs)),
           metadata := (case md of None \<Rightarrow> empty_metadata | Some m \<Rightarrow> m),
           dim := sidecar_dim self md,
           index := Some \<lparr>g_space = sidecar_space self md, g_dim = sidecar_dim self md,
                      g_max_elements = b_max_elements blob,
                      g_ef_construction = b_ef_construction blob, g_M = b_M blob,
                      g_ef = ef_search (config self), g_items = b_items blob\<rparr>\<rparr>)"
  using assms
  by (auto simp: load_def Let_def sidecar_dim_def sidecar_space_def valid_space_def
      hnswlib_Index_def load_index_def set_ef_def empty_metadata_def split: option.splits)

text \<open>
  Claim C9, as amended. \<open>load\<close> fails, leaving the controller as it was, when the
  sidecar is absent, is not JSON, or lacks the key \<open>id_to_user\<close>. When the sidecar has a
  readable identifier map, a missing \<open>metadata\<close>, \<open>dim\<close> or \<open>space\<close> is no failure: the
  controller's own dimension and configured space stand in, and with a binary of that
  dimension \<open>load\<close> succeeds with a graph of that dimension and space.
\<close>

theorem load_sidecar_failures:
  "(read_mappings fs path = None \<longrightarrow> load fs self path = (Some FileNotFoundError, self)) \<and>
   (read_mappings fs path = Some Garbled \<longrightarrow> load fs self path = (Some JSONDecodeError, self)) \<and>
   (read_mappings fs path = Some (Mappings None md) \<longrightarrow> load fs self path = (Some KeyError, self)) \<and>
   (read_mappings fs path = Some (Mappings (Some kvs) md) \<longrightarrow> int_keys kvs = Inr ikvs \<longrightarrow>
      valid_space (sidecar_space self md) \<longrightarrow>
      read_index_bin fs path = Some blob \<longrightarrow> b_dim blob = sidecar_dim self md \<longrightarrow>
      fst (load fs self path) = None \<and>
      (\<exists>g. index (snd (load fs self path)) = Some g \<and> g_space g = sidecar_space self md \<and>
           g_dim g = sidecar_dim self md \<and> g_items g = b_items blob) \<and>
      dim (snd (load fs self path)) = sidecar_dim self md)"
proof (intro conjI impI)
  assume "read_mappings fs path = None"
  then show "load fs self path = (Some FileNotFoundError, self)" by (simp add: load_def)
next
  assume "read_mappings fs path = Some Garbled"
  then show "load fs self path = (Some JSONDecodeError, self)" by (simp add: load_def)
next
  assume "read_mappings fs path = Some (Mappings None md)"
  then show "load fs self path = (Some KeyError, self)" by (simp add: load_def)
next
  assume a: "read_mappings fs path = Some (Mappings (Some kvs) md)" "int_keys kvs = Inr ikvs"
    "valid_space (sidecar_space self md)" "read_index_bin fs path = Some blob"
    "b_dim blob = sidecar_dim self md"
  note ok = load_success [OF a(1-4)]
  show "fst (load fs self path) = None" by (simp add: ok)
  show "\<exists>g. index (snd (load fs self path)) = Some g \<and> g_space g = sidecar_space self md \<and>
           g_dim g = sidecar_dim self md \<and> g_items g = b_items blob"
    by (simp add: ok)
  show "dim (snd (load fs self path)) = sidecar_dim self md" by (simp add: ok)
qed

lemmas file_defs = read_mappings_def read_index_bin_def save_index_def load_index_def
  py_int_def py_str_def digits.simps digit_val_def digit_chars_def

text \<open>
  A run of the theorem: a path with no directory, and the directory whose sidecar has no
  \<open>metadata\<close>.
\<close>

theorem load_sidecar_failures_witness:
  "read_mappings Map.empty ''d'' = None \<and>
   load Map.empty (ANNIndex_init None 2) ''d'' = (Some FileNotFoundError, ANNIndex_init None 2) \<and>
   read_mappings bare_fs ''d'' = Some (Mappings (Some [(''0'', ''a''), (''1'', ''b'')]) None) \<and>
   int_keys [(''0'', ''a''), (''1'', ''b'')] = Inr [(0, ''a''), (1, ''b'')] \<and>
   sidecar_space (ANNIndex_init None 2) None = ''cosine'' \<and>
   sidecar_dim (ANNIndex_init None 2) None = 2 \<and>
   read_index_bin bare_fs ''d'' = Some (save_index unit_graph) \<and>
   b_dim (save_index unit_graph) = 2 \<and>
   fst (load bare_fs (ANNIndex_init None 2) ''d'') = None \<and>
   index (snd (load bare_fs (ANNIndex_init None 2) ''d'')) = Some unit_graph"
  using load_sidecar_failures [where fs = Map.empty and path = "''d''" and self = "ANNIndex_init None 2"]
    load_sidecar_failures [where fs = bare_fs and path = "''d''" and self = "ANNIndex_init None 2"
      and kvs = "[(''0'', ''a''), (''1'', ''b'')]" and md = None
      and ikvs = "[(0, ''a''), (1, ''b'')]" and blob = "save_index unit_graph"]
  by (simp add: bare_fs_def file_defs sidecar_space_def sidecar_dim_def valid_space_def
      load_def Let_def hnswlib_Index_def set_ef_def dict_of_pairs_def
      ANNIndex_init_def ANNIndexConfig_default_def empty_metadata_def unit_graph_def)

text \<open>
  Claim C9 as stated wants \<open>load\<close> to fail on a sidecar without the recorded dimension
  and space. On such a sidecar \<open>load\<close> returns normally with a usable index, built with
  the controller's own dimension 2 and the configured space \<open>cosine\<close>.
\<close>

theorem load_missing_metadata_counterexample:
  "read_mappings bare_fs ''d'' = Some (Mappings (Some [(''0'', ''a''), (''1'', ''b'')]) None) \<and>
   load bare_fs (ANNIndex_init None 2) ''d'' =
     (None,
      \<lparr>config = ANNIndexConfig_default, dim = 2, index = Some unit_graph,
       id_to_user = [(0, ''a''), (1, ''b'')], user_to_id = [(''a'', 0), (''b'', 1)],
       metadata = empty_metadata\<rparr>)"
  by (simp add: bare_fs_def file_defs load_def Let_def hnswlib_Index_def set_ef_def
      dict_of_pairs_def ANNIndex_init_def ANNIndexConfig_default_def empty_metadata_def
      unit_graph_def)

subsection \<open>Save and load\<close>

lemma l2_index_eq:
  "l2_index =
     \<lparr>config = ANNIndexConfig_default\<lparr>space := ''l2''\<rparr>, dim = 2, index = Some l2_graph,
      id_to_user = [(0, ''a''), (1, ''b'')], user_to_id = [(''a'', 0), (''b'', 1)],
      metadata = \<lparr>md_n_elements = Some 2, md_dim = Some 2, md_space = Some ''l2'',
        md_built_at = Some ''t'', md_ef_construction = Some 200, md_M = Some 16\<rparr>\<rparr>"
  by (simp add: l2_index_def l2_graph_def eval_defs unit_graph_def)

lemma reloaded_index_eq:
  "reloaded_index =
     \<lparr>config = ANNIndexConfig_default, dim = 2, index = Some l2_graph,
      id_to_user = [(0, ''a''), (1, ''b'')], user_to_id = [(''a'', 0), (''b'', 1)],
      metadata = \<lparr>md_n_elements = Some 2, md_dim = Some 2, md_space = Some ''l2'',
        md_built_at = Some ''t'', md_ef_construction = Some 200, md_M = Some 16\<rparr>\<rparr>"
  by (simp add: reloaded_index_def saved_fs_def l2_index_eq l2_graph_def file_defs load_def Let_def
      hnswlib_Index_def set_ef_def dict_of_pairs_def ANNIndex_init_def ANNIndexConfig_default_def
      unit_graph_def)

text \<open>
  Claim C2, on the code. An index built under the space \<open>l2\<close> is saved and loaded into
  the controller \<open>ANNIndex()\<close>. \<open>load\<close> succeeds and restores the graph and the
  identifier map, and the graph keeps the space \<open>l2\<close> of the metadata; but \<open>query\<close>
  converts distances by \<open>self.config.space\<close>, which \<open>load\<close> leaves at \<open>cosine\<close>. The
  same query returns the same IDs with the scores 0 and -2 before, 1 and -1 after.
\<close>

theorem roundtrip_scores_differ:
  "save Map.empty l2_index ''d'' = Inr saved_fs \<and>
   load saved_fs (ANNIndex_init None 384) ''d'' = (None, reloaded_index) \<and>
   index reloaded_index = index l2_index \<and>
   id_to_user reloaded_index = id_to_user l2_index \<and>
   query exact_knn l2_index [1, 0] 2 None = Inr [(''a'', 0), (''b'', - 2)] \<and>
   query exact_knn reloaded_index [1, 0] 2 None = Inr [(''a'', 1), (''b'', - 1)]"
proof (intro conjI)
  show "save Map.empty l2_index ''d'' = Inr saved_fs"
    by (simp add: save_def saved_fs_def l2_index_eq dict_of_pairs_def file_defs)
  show "load saved_fs (ANNIndex_init None 384) ''d'' = (None, reloaded_index)"
    by (simp add: reloaded_index_def saved_fs_def l2_index_eq l2_graph_def file_defs load_def Let_def
      hnswlib_Index_def set_ef_def dict_of_pairs_def ANNIndex_init_def ANNIndexConfig_default_def
      unit_graph_def)
  show "index reloaded_index = index l2_index"
    by (simp add: reloaded_index_eq l2_index_eq)
  show "id_to_user reloaded_index = id_to_user l2_index"
    by (simp add: reloaded_index_eq l2_index_eq)
  show "query exact_knn l2_index [1, 0] 2 None = Inr [(''a'', 0), (''b'', - 2)]"
    by (simp add: l2_index_eq l2_graph_def run_defs)
  show "query exact_knn reloaded_index [1, 0] 2 None = Inr [(''a'', 1), (''b'', - 1)]"
    by (simp add: reloaded_index_eq l2_graph_def run_defs)
qed

text \<open>
  What does hold: \<open>int(str(k)) = k\<close>, so the identifier map survives the sidecar, and a
  controller left by a successful \<open>build\<close>, saved and loaded into a controller of the same
  configured space and search breadth, answers every query as before.
\<close>

lemma digit_val_digit: "d < 10 \<Longrightarrow> digit_val (digit_chars ! d) = Some d"
proof -
  assume "d < 10"
  then have "d = 0 \<or> d = 1 \<or> d = 2 \<or> d = 3 \<or> d = 4 \<or> d = 5 \<or> d = 6 \<or> d = 7 \<or> d = 8 \<or> d = 9"
    by arith
  then show ?thesis
    by (elim disjE) (simp_all add: digit_val_def digit_chars_def)
qed

lemma digit_not_sign: "d < 10 \<Longrightarrow> digit_chars ! d \<noteq> CHR ''-'' \<and> digit_chars ! d \<noteq> CHR ''+''"
proof -
  assume "d < 10"
  then have "d = 0 \<or> d = 1 \<or> d = 2 \<or> d = 3 \<or> d = 4 \<or> d = 5 \<or> d = 6 \<or> d = 7 \<or> d = 8 \<or> d = 9"
    by arith
  then show ?thesis
    by (elim disjE) (simp_all add: digit_chars_def)
qed

lemma parse_digits_snoc:
  "parse_digits acc (cs @ [c]) =
     (case parse_digits acc cs of
        None \<Rightarrow> None
      | Some a \<Rightarrow> (case digit_val c of None \<Rightarrow> None | Some d \<Rightarrow> Some (10 * a + d)))"
  by (induction cs arbitrary: acc) (auto split: option.splits)

lemma parse_digits_digits: "parse_digits 0 (digits n) = Some n"
proof (induction n rule: digits.induct)
  case (1 n)
  show ?case
  proof (cases "n < 10")
    case True
    then show ?thesis by (subst digits.simps) (simp add: digit_val_digit)
  next
    case False
    have "n mod 10 < 10" by simp
    with False 1 show ?thesis
      by (subst digits.simps) (simp add: parse_digits_snoc digit_val_digit)
  qed
qed

lemma digits_first:
  "\<exists>d cs. digits n = digit_chars ! d # cs \<and> d < 10"
proof (induction n rule: digits.induct)
  case (1 n)
  show ?case
  proof (cases "n < 10")
    case True
    then show ?thesis by (subst digits.simps) auto
  next
    case False
    with 1 obtain d cs where "digits (n div 10) = digit_chars ! d # cs" "d < 10" by blast
    with False show ?thesis by (subst digits.simps) auto
  qed
qed

lemma py_int_py_str: "py_int (py_str i) = Inr i"
proof (cases "i < 0")
  case True
  obtain d cs where d: "digits (nat (- i)) = digit_chars ! d # cs" "d < 10"
    using digits_first by blast
  have "parse_digits 0 (digits (nat (- i))) = Some (nat (- i))" by (rule parse_digits_digits)
  with True d show ?thesis by (simp add: py_int_def py_str_def)
next
  case False
  obtain d cs where d: "digits (nat i) = digit_chars ! d # cs" "d < 10"
    using digits_first by blast
  have p: "parse_digits 0 (digits (nat i)) = Some (nat i)" by (rule parse_digits_digits)
  from False d p digit_not_sign [OF d(2)] show ?thesis
    by (simp add: py_int_def py_str_def del: parse_digits.simps)
qed

lemma py_str_inj: "inj py_str"
proof (rule injI)
  fix i j assume "py_str i = py_str j"
  then have "py_int (py_str i) = py_int (py_str j)" by simp
  then show "i = j" by (simp add: py_int_py_str)
qed

lemma int_keys_py_str: "int_keys (map (\<lambda>(k, v). (py_str k, v)) d) = Inr d"
  by (induction d) (auto simp: py_int_py_str)

lemma fst_str_keys: "map fst (map (\<lambda>(k, v). (py_str k, v)) d) = map py_str (map fst d)"
  by (induction d) auto

lemma distinct_str_keys:
  "distinct (map fst d) \<Longrightarrow> distinct (map fst (map (\<lambda>(k, v). (py_str k, v)) d))"
  unfolding fst_str_keys using py_str_inj by (simp add: distinct_map inj_on_def inj_def)

lemma save_load_roundtrip:
  assumes "consistent self"
    and "ef_search (config fresh) = ef_search (config self)"
  shows "\<exists>fs' g. save fs self path = Inr fs' \<and> index self = Some g \<and>
           load fs' fresh path =
             (None, fresh\<lparr>id_to_user := id_to_user self,
                          user_to_id := dict_of_pairs (map (\<lambda>(k, v). (v, k)) (id_to_user self)),
                          metadata := metadata self, dim := g_dim g, index := Some g\<rparr>)"
proof -
  from assms(1) obtain g where g: "index self = Some g" "valid_space (g_space g)"
    "md_dim (metadata self) = Some (g_dim g)" "md_space (metadata self) = Some (g_space g)"
    "g_ef g = ef_search (config self)" "distinct (map fst (id_to_user self))"
    by (auto simp: consistent_def split: option.splits)
  define kvs where "kvs = map (\<lambda>(k, v). (py_str k, v)) (id_to_user self)"
  define fs' where "fs' = fs(path \<mapsto> \<lparr>index_bin = Some (save_index g),
                 mappings_json = Some (Mappings (Some kvs) (Some (metadata self)))\<rparr>)"
  have "dict_of_pairs kvs = kvs"
    unfolding kvs_def using g(6) by (intro dict_of_pairs_distinct distinct_str_keys)
  then have s: "save fs self path = Inr fs'"
    using g(1) by (simp add: save_def fs'_def kvs_def)
  have d: "sidecar_dim fresh (Some (metadata self)) = g_dim g"
    and sp: "sidecar_space fresh (Some (metadata self)) = g_space g"
    using g by (simp_all add: sidecar_space_def sidecar_dim_def)
  have r1: "read_mappings fs' path = Some (Mappings (Some kvs) (Some (metadata self)))"
    and r2: "read_index_bin fs' path = Some (save_index g)"
    by (simp_all add: fs'_def read_mappings_def read_index_bin_def)
  have r3: "int_keys kvs = Inr (id_to_user self)"
    unfolding kvs_def by (rule int_keys_py_str)
  have r4: "valid_space (sidecar_space fresh (Some (metadata self)))"
    using g by (simp add: sp)
  have e: "dict_of_pairs (id_to_user self) = id_to_user self"
    using g(6) by (rule dict_of_pairs_distinct)
  have gg: "\<lparr>g_space = g_space g, g_dim = g_dim g,
          g_max_elements = b_max_elements (save_index g),
          g_ef_construction = b_ef_construction (save_index g), g_M = b_M (save_index g),
          g_ef = ef_search (config fresh), g_items = b_items (save_index g)\<rparr> = g"
    using g(5) assms(2) by (cases g) (simp add: save_index_def)
  have "load fs' fresh path =
     (None, fresh\<lparr>id_to_user := id_to_user self,
                  user_to_id := dict_of_pairs (map (\<lambda>(k, v). (v, k)) (id_to_user self)),
                  metadata := metadata self, dim := g_dim g, index := Some g\<rparr>)"
    unfolding load_success [OF r1 r3 r4 r2] e d sp gg by simp
  with s g(1) show ?thesis by blast
qed

lemma survivors_same:
  assumes "id_to_user c = id_to_user c'" and "space (config c) = space (config c')"
  shows "survivors c excl cands = survivors c' excl cands"
proof -
  have "scored c = scored c'"
    using assms by (intro ext) (simp add: scored_def split: option.splits)
  moreover have "survives c excl = survives c' excl"
    using assms by (intro ext) (simp add: survives_def)
  ultimately show ?thesis by (simp add: survivors_def)
qed

lemma roundtrip_same_results:
  assumes "consistent self"
    and "ef_search (config fresh) = ef_search (config self)"
    and "space (config fresh) = space (config self)"
    and "save fs self path = Inr fs'"
  shows "fst (load fs' fresh path) = None \<and>
         query knn (snd (load fs' fresh path)) embedding k exclude_ids
           = query knn self embedding k exclude_ids \<and>
         query_batch knn (snd (load fs' fresh path)) embeddings k
           = query_batch knn self embeddings k"
proof -
  from save_load_roundtrip [OF assms(1,2), of fs path] assms(4)
  obtain g where g: "index self = Some g"
    and l: "load fs' fresh path =
             (None, fresh\<lparr>id_to_user := id_to_user self,
                          user_to_id := dict_of_pairs (map (\<lambda>(k, v). (v, k)) (id_to_user self)),
                          metadata := metadata self, dim := g_dim g, index := Some g\<rparr>)"
    by auto
  let ?c = "snd (load fs' fresh path)"
  have same: "index ?c = index self" "id_to_user ?c = id_to_user self"
    "space (config ?c) = space (config self)"
    using g assms(3) by (simp_all add: l)
  have sv: "survivors ?c excl cands = survivors self excl cands" for excl cands
    using same(2,3) by (rule survivors_same)
  have loop: "query_loop ?c k' excl cands acc = query_loop self k' excl cands acc" for k' excl cands acc
    by (simp add: query_loop_take sv)
  have bloop: "batch_rows ?c rows acc = batch_rows self rows acc" for rows acc
    by (simp add: batch_rows_eq sv)
  have q: "query knn ?c embedding k exclude_ids = query knn self embedding k exclude_ids"
    unfolding query_def same(1) loop by (rule refl)
  have qb: "query_batch knn ?c embeddings k = query_batch knn self embeddings k"
    unfolding query_batch_def same(1) bloop by (rule refl)
  have "fst (load fs' fresh path) = None" by (simp add: l)
  with q qb show ?thesis by blast
qed

lemma build_consistent:
  assumes "valid_space (space (config self))"
    and "\<forall>row \<in> set embeddings. int (length row) = dim self"
  shows "consistent (snd (build now self embeddings user_ids))"
  by (simp add: build_success [OF assms] consistent_def assms(1) distinct_enumerate)

end
